theory Spec2Isabelle
  imports Complex_Main "HOL-Library.Multiset" "HOL-Library.List_Lexorder" "HOL-Library.Char_ord"
begin

section \<open>Data model (frontend/src/lib/api.ts)\<close>

text \<open>
  The records mirror the JSON shapes the typed client declares. A JavaScript string is
  modelled as a \<^typ>\<open>string\<close>; numbers that are identifiers or counters are \<^typ>\<open>int\<close>.
  The \<open>status\<close> field is declared as the union of the four literals \<open>pending\<close>,
  \<open>analyzing\<close>, \<open>completed\<close>, \<open>failed\<close>; at run time it is whatever string the server sent,
  so it stays a string here and every theorem below covers any value of it.
\<close>

record ReviewComment =
  comment_id :: int
  line_start :: int
  line_end :: int
  content :: string
  severity :: string
  category :: "string option"
  suggestion :: "string option"

record ReviewResult =
  summary :: string
  issues_found :: int
  security_issues :: int
  ai_model_used :: string

record CodeReviewDetail =
  review_id :: int
  code_content :: string
  language :: "string option"
  filename :: "string option"
  status :: string
  created_at :: string
  updated_at :: string
  comments :: "ReviewComment list"
  result :: "ReviewResult option"

record PRReview =
  pr_review_id :: int
  pr_number :: int
  pr_title :: "string option"
  head_sha :: string
  pr_status :: string
  pr_issues_found :: int
  files_reviewed :: int
  error_message :: "string option"

section \<open>The query cache entry a page observes\<close>

text \<open>
  \<open>useQuery\<close> hands the \<open>refetchInterval\<close> callback the query object; the callbacks of this
  repository read \<open>query.state.data\<close> only. The state record carries the other fields the
  data-fetching library keeps beside the data (the last error and the update and failure
  counters), so that "depends on the data alone" is a statement and not an artefact of the
  model. \<open>data = None\<close> is JavaScript's \<open>undefined\<close>: nothing has been fetched yet.
\<close>

datatype FetchStatus = fetching | paused | idle

datatype QueryStatus = pending | error | success

record 'd QueryState =
  data :: "'d option"
  dataUpdateCount :: nat
  query_error :: "string option"
  errorUpdateCount :: nat
  fetchFailureCount :: nat
  fetchStatus :: FetchStatus
  query_status :: QueryStatus

text \<open>The value of a \<open>refetchInterval\<close> callback: a number of milliseconds, or \<open>false\<close>.\<close>

datatype RefetchInterval = Millis nat | Never

subsection \<open>reviews/[id]/page.tsx: \<open>ReviewPage\<close>, the polling callback\<close>

text \<open>
  \<^verbatim>\<open>refetchInterval: (query) => {
    const data = query.state.data;
    return data?.status === "analyzing" ? 2000 : false; }\<close>
  With \<open>data\<close> undefined, \<open>data?.status\<close> is undefined and the comparison is false.
\<close>

definition ReviewPage_refetchInterval :: "CodeReviewDetail QueryState \<Rightarrow> RefetchInterval" where
  "ReviewPage_refetchInterval query =
     (case data query of
        None \<Rightarrow> Never
      | Some d \<Rightarrow> if status d = ''analyzing'' then Millis 2000 else Never)"

subsection \<open>pulls/[number]/page.tsx: \<open>PRDetailPage\<close>, the polling callback\<close>

text \<open>
  \<^verbatim>\<open>refetchInterval: (query) => {
    const data = query.state.data;
    const hasAnalyzing = data?.some((r) => r.status === "analyzing");
    return hasAnalyzing ? 3000 : false; }\<close>
  With \<open>data\<close> undefined, \<open>hasAnalyzing\<close> is undefined, which is falsy.
\<close>

definition PRDetailPage_refetchInterval :: "PRReview list QueryState \<Rightarrow> RefetchInterval" where
  "PRDetailPage_refetchInterval query =
     (case data query of
        None \<Rightarrow> Never
      | Some rs \<Rightarrow>
          if list_ex (\<lambda>r. pr_status r = ''analyzing'') rs then Millis 3000 else Never)"

subsection \<open>What the data-fetching library does to a cache entry\<close>

text \<open>
  The pages use TanStack Query 5 (the version the repository's README names). Its source is
  not part of this repository; the three transitions below follow its query reducer, and the
  pages' own code is what the theorems are about. A fetch that starts marks the entry as
  fetching; a fetch that succeeds stores the data and clears the error; a fetch that fails
  (after the library's own retries) records the error and \<^emph>\<open>keeps the data of the last
  successful fetch\<close>.
\<close>

definition fetch_started :: "'d QueryState \<Rightarrow> 'd QueryState" where
  "fetch_started q =
     (if data q = None
      then q\<lparr>fetchFailureCount := 0, fetchStatus := fetching,
             query_error := None, query_status := pending\<rparr>
      else q\<lparr>fetchFailureCount := 0, fetchStatus := fetching\<rparr>)"

definition fetch_succeeded :: "'d \<Rightarrow> 'd QueryState \<Rightarrow> 'd QueryState" where
  "fetch_succeeded d q =
     q\<lparr>data := Some d, dataUpdateCount := dataUpdateCount q + 1, query_error := None,
       fetchFailureCount := 0, fetchStatus := idle, query_status := success\<rparr>"

definition fetch_failed :: "string \<Rightarrow> 'd QueryState \<Rightarrow> 'd QueryState" where
  "fetch_failed e q =
     q\<lparr>query_error := Some e, errorUpdateCount := errorUpdateCount q + 1,
       fetchFailureCount := fetchFailureCount q + 1, fetchStatus := idle,
       query_status := error\<rparr>"

text \<open>
  What \<open>useQuery\<close> returns to the component, as far as the pages destructure it:
  \<open>data\<close>, \<open>isLoading\<close> (fetching with nothing fetched yet) and \<open>error\<close>.
\<close>

record 'd QueryResult =
  result_data :: "'d option"
  isLoading :: bool
  result_error :: "string option"

definition useQuery :: "'d QueryState \<Rightarrow> 'd QueryResult" where
  "useQuery q =
     \<lparr>result_data = data q,
      isLoading = (fetchStatus q = fetching \<and> query_status q = pending),
      result_error = query_error q\<rparr>"

subsection \<open>reviews/[id]/page.tsx: what \<open>ReviewPage\<close> renders\<close>

text \<open>
  \<^verbatim>\<open>const canAnalyze = review.status === "pending" || review.status === "failed";
  const isAnalyzing = review.status === "analyzing";\<close>
\<close>

definition canAnalyze :: "CodeReviewDetail \<Rightarrow> bool" where
  "canAnalyze review = (status review = ''pending'' \<or> status review = ''failed'')"

definition isAnalyzing :: "CodeReviewDetail \<Rightarrow> bool" where
  "isAnalyzing review = (status review = ''analyzing'')"

text \<open>
  The panel with the model checkbox and the button that calls \<open>analyzeMutation.mutate()\<close>.
  The button is disabled while the mutation is pending, and its label changes then.
\<close>

record StartAnalysisPanel =
  useComplexModel_checked :: bool
  button_disabled :: bool
  button_label :: string

text \<open>
  The rendered review: the status badge, the panel (present only under \<open>canAnalyze\<close>), the
  "Analysis in progress" banner (present only under \<open>isAnalyzing\<close>), and the review whose code,
  comments and result fill the editor and the results column. Class names and layout are
  left out.
\<close>

record ReviewView =
  status_badge :: string
  start_panel :: "StartAnalysisPanel option"
  analyzing_banner :: bool
  shown_review :: CodeReviewDetail

datatype PageView = LoadingView | FailedToLoadView | ReviewShown ReviewView

definition review_view :: "CodeReviewDetail \<Rightarrow> bool \<Rightarrow> bool \<Rightarrow> ReviewView" where
  "review_view review useComplexModel mutationPending =
     \<lparr>status_badge = status review,
      start_panel =
        (if canAnalyze review
         then Some \<lparr>useComplexModel_checked = useComplexModel,
                    button_disabled = mutationPending,
                    button_label = (if mutationPending then ''Starting...'' else ''Start Analysis'')\<rparr>
         else None),
      analyzing_banner = isAnalyzing review,
      shown_review = review\<rparr>"

text \<open>
  \<^verbatim>\<open>if (isLoading) return <Loading review...>;
  if (error || !review) return <Failed to load review>;
  ... the review ...\<close>
  The arguments are what the component reads: the result of \<open>useQuery\<close>, the
  \<open>useComplexModel\<close> state and \<open>analyzeMutation.isPending\<close>.
\<close>

definition ReviewPage :: "CodeReviewDetail QueryResult \<Rightarrow> bool \<Rightarrow> bool \<Rightarrow> PageView" where
  "ReviewPage r useComplexModel mutationPending =
     (if isLoading r then LoadingView
      else if result_error r \<noteq> None then FailedToLoadView
      else case result_data r of
             None \<Rightarrow> FailedToLoadView
           | Some review \<Rightarrow> ReviewShown (review_view review useComplexModel mutationPending))"

text \<open>
  The user can trigger the analysis from a rendered page when the button is there and is not
  disabled.
\<close>

definition start_offered :: "PageView \<Rightarrow> bool" where
  "start_offered v = (case v of ReviewShown rv \<Rightarrow> start_panel rv \<noteq> None | _ \<Rightarrow> False)"

definition start_triggerable :: "PageView \<Rightarrow> bool" where
  "start_triggerable v =
     (case v of
        ReviewShown rv \<Rightarrow>
          (case start_panel rv of None \<Rightarrow> False | Some p \<Rightarrow> \<not> button_disabled p)
      | _ \<Rightarrow> False)"

text \<open>Two cache entries used as concrete inputs below.\<close>

definition example_review :: "string \<Rightarrow> CodeReviewDetail" where
  "example_review st =
     \<lparr>review_id = 7, code_content = ''print(1)'', language = Some ''python'',
      filename = None, status = st, created_at = ''2026-01-01'', updated_at = ''2026-01-01'',
      comments = [], result = None\<rparr>"

definition example_query :: "string \<Rightarrow> CodeReviewDetail QueryState" where
  "example_query st =
     \<lparr>data = Some (example_review st), dataUpdateCount = 1, query_error = None,
      errorUpdateCount = 0, fetchFailureCount = 0, fetchStatus = idle,
      query_status = success\<rparr>"


section \<open>The home page (frontend/src/app/page.tsx)\<close>

text \<open>
  The code the user typed is kept as its UTF-16 code units (numbers below 65536), because
  \<open>String.prototype.trim\<close> looks at them: it removes, at both ends, the code units of
  ECMAScript's WhiteSpace and LineTerminator productions. These are TAB, LF, VT, FF, CR,
  SPACE, NO-BREAK SPACE, OGHAM SPACE MARK, EN QUAD to HAIR SPACE, LINE SEPARATOR, PARAGRAPH
  SEPARATOR, NARROW NO-BREAK SPACE, MEDIUM MATHEMATICAL SPACE, IDEOGRAPHIC SPACE and the byte
  order mark.
\<close>

type_synonym code_units = "nat list"

definition isWhiteSpace :: "nat \<Rightarrow> bool" where
  "isWhiteSpace c =
     (c = 0x09 \<or> c = 0x0A \<or> c = 0x0B \<or> c = 0x0C \<or> c = 0x0D \<or> c = 0x20 \<or> c = 0xA0
      \<or> c = 0x1680 \<or> (0x2000 \<le> c \<and> c \<le> 0x200A) \<or> c = 0x2028 \<or> c = 0x2029
      \<or> c = 0x202F \<or> c = 0x205F \<or> c = 0x3000 \<or> c = 0xFEFF)"

definition trim :: "code_units \<Rightarrow> code_units" where
  "trim s = rev (dropWhile isWhiteSpace (rev (dropWhile isWhiteSpace s)))"

text \<open>
  The component's state (\<open>code\<close>, \<open>language\<close>, \<open>filename\<close>) and the one field of the
  \<open>createReview\<close> mutation the page reads, \<open>isPending\<close>: a creation request is in flight.
\<close>

record HomePage_state =
  code :: code_units
  home_language :: string
  home_filename :: string
  createReview_isPending :: bool

text \<open>
  The body \<open>createReview.mutate()\<close> posts to \<open>/api/reviews\<close>:
  \<^verbatim>\<open>{ code_content: code, language: language || undefined, filename: filename || undefined }\<close>
  An empty language or filename is sent as \<open>undefined\<close>, that is, left out.
\<close>

record CreateReviewRequest =
  req_code_content :: code_units
  req_language :: "string option"
  req_filename :: "string option"

definition or_undefined :: "string \<Rightarrow> string option" where
  "or_undefined s = (if s = [] then None else Some s)"

text \<open>
  \<^verbatim>\<open>const handleSubmit = () => { if (!code.trim()) return; createReview.mutate(); };\<close>
  The result is the request the handler issues, \<open>None\<close> when it returns without one.
\<close>

definition handleSubmit :: "HomePage_state \<Rightarrow> CreateReviewRequest option" where
  "handleSubmit s =
     (if trim (code s) = [] then None
      else Some \<lparr>req_code_content = code s,
                 req_language = or_undefined (home_language s),
                 req_filename = or_undefined (home_filename s)\<rparr>)"

text \<open>\<^verbatim>\<open>disabled={!code.trim() || createReview.isPending}\<close>\<close>

definition submit_disabled :: "HomePage_state \<Rightarrow> bool" where
  "submit_disabled s = (trim (code s) = [] \<or> createReview_isPending s)"

section \<open>The typed client (frontend/src/lib/api.ts): \<open>fetchApi\<close>\<close>

text \<open>
  A JSON value. Numbers are the finite doubles, here rationals.
\<close>

datatype json =
    JNull
  | JBool bool
  | JNumber rat
  | JString string
  | JArray "json list"
  | JObject "(string \<times> json) list"

text \<open>
  The platform's JSON parser is not code of this repository. A text that the code only hands
  to the parser (a response body, a stored preference string) is represented by what the
  parser makes of it: \<open>Parses j\<close> is any text that parses to \<open>j\<close>, \<open>Malformed\<close> any non-empty
  text the parser rejects, \<open>Empty\<close> the empty text (which the parser rejects too).
\<close>

datatype js_text = Parses json | Malformed | Empty

definition JSON_parse :: "js_text \<Rightarrow> json option" where
  "JSON_parse t = (case t of Parses j \<Rightarrow> Some j | Malformed \<Rightarrow> None | Empty \<Rightarrow> None)"

text \<open>
  An HTTP response as \<open>fetchApi\<close> reads it: the numeric status and the body; \<open>response.ok\<close>
  is, by the Fetch standard, a status from 200 to 299. \<open>fetch\<close> itself either resolves to a
  response or rejects with a \<open>TypeError\<close> when no response arrives.
\<close>

record Response =
  response_status :: nat
  response_body :: js_text

definition ok :: "Response \<Rightarrow> bool" where
  "ok r = (200 \<le> response_status r \<and> response_status r \<le> 299)"

datatype fetch_outcome = Responded Response | Rejected string

text \<open>
  What a call can throw: the \<open>Error\<close> that \<open>fetchApi\<close> constructs itself, with its message,
  the \<open>SyntaxError\<close> of \<open>response.json()\<close> on a body that is not JSON, and the \<open>TypeError\<close>
  of a rejected \<open>fetch\<close>.
\<close>

datatype js_error = Error string | SyntaxError | TypeError string

text \<open>The request \<open>fetchApi\<close> builds: the URL, and the options with the headers merged.\<close>

record RequestInit =
  request_method :: "string option"
  headers :: "(string \<times> string) list"
  request_body :: "string option"

record Request =
  url :: string
  init :: RequestInit

text \<open>Decimal digits of a number, as a template literal prints it.\<close>

fun decimal :: "nat \<Rightarrow> string" where
  "decimal n =
     (if n < 10 then [''0123456789'' ! n]
      else decimal (n div 10) @ [''0123456789'' ! (n mod 10)])"

text \<open>
  \<^verbatim>\<open>headers: { "Content-Type": "application/json", ...options?.headers }\<close>
  The caller's headers come after the default one and override it on the same name.
\<close>

definition merge_headers :: "(string \<times> string) list \<Rightarrow> (string \<times> string) list" where
  "merge_headers hs =
     (case map_of hs ''Content-Type'' of
        None \<Rightarrow> (''Content-Type'', ''application/json'') # hs
      | Some v \<Rightarrow> (''Content-Type'', v) # filter (\<lambda>(k, _). k \<noteq> ''Content-Type'') hs)"

definition build_request :: "string \<Rightarrow> string \<Rightarrow> RequestInit option \<Rightarrow> Request" where
  "build_request API_URL endpoint options =
     \<lparr>url = API_URL @ endpoint,
      init = (case options of
                None \<Rightarrow> \<lparr>request_method = None,
                         headers = [(''Content-Type'', ''application/json'')],
                         request_body = None\<rparr>
              | Some opts \<Rightarrow> opts\<lparr>headers := merge_headers (headers opts)\<rparr>)\<rparr>"

text \<open>
  \<^verbatim>\<open>const response = await fetch(`${API_URL}${endpoint}`, {...});
  if (!response.ok) { throw new Error(`API error: ${response.status}`); }
  return response.json();\<close>
  The network is the parameter \<open>fetch\<close>; \<open>API_URL\<close> is the environment's value or
  \<open>http://localhost:8000\<close>. The result is the thrown error (\<open>Inl\<close>) or the parsed body.
\<close>

definition fetchApi ::
  "(Request \<Rightarrow> fetch_outcome) \<Rightarrow> string \<Rightarrow> string \<Rightarrow> RequestInit option \<Rightarrow> js_error + json" where
  "fetchApi fetch API_URL endpoint options =
     (case fetch (build_request API_URL endpoint options) of
        Rejected msg \<Rightarrow> Inl (TypeError msg)
      | Responded response \<Rightarrow>
          if \<not> ok response
          then Inl (Error (''API error: '' @ decimal (response_status response)))
          else (case JSON_parse (response_body response) of
                  None \<Rightarrow> Inl SyntaxError
                | Some body \<Rightarrow> Inr body))"

text \<open>A server that answers every request with one fixed response.\<close>

definition always :: "nat \<Rightarrow> js_text \<Rightarrow> Request \<Rightarrow> fetch_outcome" where
  "always st b = (\<lambda>_. Responded \<lparr>response_status = st, response_body = b\<rparr>)"

section \<open>The query cache and the mutations' \<open>onSuccess\<close> handlers\<close>

text \<open>
  The review page and the pull-request page compute the number in their key from the route:
  \<^verbatim>\<open>const reviewId = parseInt(id, 10);\<close> and \<^verbatim>\<open>const prNumber = parseInt(number, 10);\<close>
  \<open>parseInt\<close> gives an integer, or \<open>NaN\<close> for a segment that does not start with a number.
\<close>

datatype parsed_number = IntegerValue int | NotANumber

text \<open>
  A query key is an array of strings and numbers (\<open>KNull\<close> is the \<open>null\<close> that
  \<open>selectedFile\<close> can be). The cache maps the key of an entry to the entry; of an entry only
  the flag \<open>isInvalidated\<close> matters here: an entry with the flag set is stale whatever its
  age, so the next read of it fetches from the server again. (The library finds an entry by
  the printed form of its key; the model keeps it under the key itself.)
\<close>

datatype key_part = KStr string | KNum parsed_number | KNull

type_synonym QueryKey = "key_part list"

type_synonym QueryCache = "QueryKey \<rightharpoonup> bool"

text \<open>
  \<open>queryClient.invalidateQueries({ queryKey })\<close> is the library's: it marks every cached
  entry whose key starts with the given key, the elements compared with \<open>===\<close>. Under
  \<open>===\<close> the number \<open>NaN\<close> is different from itself, so a key that holds \<open>NaN\<close> matches
  no key, not even itself. Entries that are not in the cache stay absent.
\<close>

definition strict_equal :: "key_part \<Rightarrow> key_part \<Rightarrow> bool" where
  "strict_equal a b = (a = b \<and> a \<noteq> KNum NotANumber)"

fun partialMatchKey :: "QueryKey \<Rightarrow> QueryKey \<Rightarrow> bool" where
  "partialMatchKey [] key = True"
| "partialMatchKey (f # fs) [] = False"
| "partialMatchKey (f # fs) (k # ks) = (strict_equal f k \<and> partialMatchKey fs ks)"

definition invalidateQueries :: "QueryKey \<Rightarrow> QueryCache \<Rightarrow> QueryCache" where
  "invalidateQueries queryKey cache =
     (\<lambda>key. case cache key of
              None \<Rightarrow> None
            | Some isInvalidated \<Rightarrow> Some (isInvalidated \<or> partialMatchKey queryKey key))"

text \<open>The keys under which the pages cache what they read (the \<open>queryKey\<close> of each \<open>useQuery\<close>).\<close>

definition ReviewPage_queryKey :: "parsed_number \<Rightarrow> QueryKey" where
  "ReviewPage_queryKey reviewId = [KStr ''review'', KNum reviewId]"

definition ReviewsPage_queryKey :: QueryKey where
  "ReviewsPage_queryKey = [KStr ''reviews'']"

definition PRDetailPage_queryKey :: "string \<Rightarrow> string \<Rightarrow> parsed_number \<Rightarrow> QueryKey" where
  "PRDetailPage_queryKey owner repo prNumber =
     [KStr ''pr-reviews'', KStr owner, KStr repo, KNum prNumber]"

definition PullsPage_queryKey :: "string \<Rightarrow> string \<Rightarrow> QueryKey" where
  "PullsPage_queryKey owner repo = [KStr ''pulls'', KStr owner, KStr repo]"

definition GitHubPage_queryKey :: QueryKey where
  "GitHubPage_queryKey = [KStr ''github-installations'']"

definition RepoPage_contents_queryKey :: "string \<Rightarrow> string \<Rightarrow> string \<Rightarrow> QueryKey" where
  "RepoPage_contents_queryKey owner repo currentPath =
     [KStr ''repo-contents'', KStr owner, KStr repo, KStr currentPath]"

definition RepoPage_file_queryKey :: "string \<Rightarrow> string \<Rightarrow> string option \<Rightarrow> QueryKey" where
  "RepoPage_file_queryKey owner repo selectedFile =
     [KStr ''file-content'', KStr owner, KStr repo,
      (case selectedFile of None \<Rightarrow> KNull | Some path \<Rightarrow> KStr path)]"

text \<open>
  What each mutation does to the cache when its request has succeeded.

  \<open>ReviewPage\<close>, \<open>analyzeMutation\<close> (\<open>api.analyzeReview\<close>):
  \<^verbatim>\<open>onSuccess: () => { queryClient.invalidateQueries({ queryKey: ["review", reviewId] }); }\<close>
\<close>

definition ReviewPage_analyzeMutation_onSuccess ::
  "parsed_number \<Rightarrow> QueryCache \<Rightarrow> QueryCache" where
  "ReviewPage_analyzeMutation_onSuccess reviewId cache =
     invalidateQueries [KStr ''review'', KNum reviewId] cache"

text \<open>
  \<open>PRDetailPage\<close>, \<open>reviewMutation\<close> (\<open>api.github.reviewPullRequest\<close>):
  \<^verbatim>\<open>onSuccess: () => { queryClient.invalidateQueries({
      queryKey: ["pr-reviews", owner, repo, prNumber] }); }\<close>
\<close>

definition PRDetailPage_reviewMutation_onSuccess ::
  "string \<Rightarrow> string \<Rightarrow> parsed_number \<Rightarrow> QueryCache \<Rightarrow> QueryCache" where
  "PRDetailPage_reviewMutation_onSuccess owner repo prNumber cache =
     invalidateQueries [KStr ''pr-reviews'', KStr owner, KStr repo, KNum prNumber] cache"

text \<open>
  \<open>PullsPage\<close>, \<open>reviewMutation\<close> (\<open>api.github.reviewPullRequest\<close> again, from the list of
  pull requests):
  \<^verbatim>\<open>onSuccess: () => { queryClient.invalidateQueries({ queryKey: ["pulls", owner, repo] }); }\<close>
\<close>

definition PullsPage_reviewMutation_onSuccess ::
  "string \<Rightarrow> string \<Rightarrow> QueryCache \<Rightarrow> QueryCache" where
  "PullsPage_reviewMutation_onSuccess owner repo cache =
     invalidateQueries [KStr ''pulls'', KStr owner, KStr repo] cache"

text \<open>
  \<open>GitHubPage\<close>, \<open>syncMutation\<close> (\<open>api.github.syncInstallations\<close>): the handler invalidates
  the installations and sets the message shown for five seconds.
  \<^verbatim>\<open>onSuccess: (data) => {
    queryClient.invalidateQueries({ queryKey: ["github-installations"] });
    setSyncMessage(`Synced: ${data.installations.length > 0
        ? data.installations.join(", ") : "No installations found"}`); ... }\<close>
\<close>

fun join :: "string \<Rightarrow> string list \<Rightarrow> string" where
  "join sep [] = []"
| "join sep [x] = x"
| "join sep (x # y # ys) = x @ sep @ join sep (y # ys)"

definition GitHubPage_syncMutation_onSuccess ::
  "string list \<Rightarrow> QueryCache \<Rightarrow> QueryCache \<times> string" where
  "GitHubPage_syncMutation_onSuccess installations cache =
     (invalidateQueries [KStr ''github-installations''] cache,
      ''Synced: '' @ (if length installations > 0 then join '', '' installations
                      else ''No installations found''))"

text \<open>
  \<open>RepoPage\<close>, \<open>reviewMutation\<close> (\<open>api.github.reviewFile\<close>):
  \<^verbatim>\<open>const reviewMutation = useMutation({
    mutationFn: (path: string) =>
      api.github.reviewFile(owner, repo, { path, use_complex_model: false }),
  });\<close>
  There is no \<open>onSuccess\<close>, and the component takes no query client: the cache is as it was.
\<close>

definition RepoPage_reviewMutation_onSuccess :: "QueryCache \<Rightarrow> QueryCache" where
  "RepoPage_reviewMutation_onSuccess cache = cache"

text \<open>
  \<open>HomePage\<close>, \<open>createReview\<close> (\<open>api.createReview\<close>):
  \<^verbatim>\<open>onSuccess: (data) => { router.push(`/reviews/${data.id}`); }\<close>
  The handler navigates to the new review and leaves the cache as it was. The argument
  \<open>id_text\<close> is what the template literal prints for \<open>data.id\<close>.
\<close>

definition HomePage_createReview_onSuccess ::
  "string \<Rightarrow> QueryCache \<Rightarrow> QueryCache \<times> string" where
  "HomePage_createReview_onSuccess id_text cache = (cache, ''/reviews/'' @ id_text)"

text \<open>
  A cache in which every page of the application has read its data for repository
  \<open>octo/demo\<close>, review 7 and pull request 3, and nothing is invalidated.
\<close>

definition example_keys :: "QueryKey list" where
  "example_keys =
     [ReviewsPage_queryKey, ReviewPage_queryKey (IntegerValue 7), GitHubPage_queryKey,
      PullsPage_queryKey ''octo'' ''demo'',
      PRDetailPage_queryKey ''octo'' ''demo'' (IntegerValue 3),
      RepoPage_contents_queryKey ''octo'' ''demo'' '''',
      RepoPage_file_queryKey ''octo'' ''demo'' (Some ''main.py'')]"

definition example_cache :: QueryCache where
  "example_cache = (\<lambda>key. if key \<in> set example_keys then Some False else None)"

text \<open>
  The cache after the review page was opened on a route whose segment is not a number: its
  entry is under the key with \<open>NaN\<close>.
\<close>

definition example_cache_NaN :: QueryCache where
  "example_cache_NaN = (\<lambda>key. if key = ReviewPage_queryKey NotANumber then Some False else None)"

section \<open>The file tree (frontend/src/components/FileTree.tsx)\<close>

record FileTreeItem =
  item_name :: string
  item_path :: string
  item_type :: string
  item_size :: "nat option"

text \<open>
  \<open>a.localeCompare(b)\<close> compares two strings in the collation order of the host's locale.
  ECMAScript requires it to be a consistent comparator on all strings, that is, the
  comparison of the strings' collation keys in a total order. The key function \<open>collate\<close>
  depends on the locale and is a parameter.
\<close>

definition localeCompare :: "(string \<Rightarrow> 'k::linorder) \<Rightarrow> string \<Rightarrow> string \<Rightarrow> int" where
  "localeCompare collate a b =
     (if collate a < collate b then - 1 else if collate a = collate b then 0 else 1)"

text \<open>
  The comparator \<open>FileTree\<close> passes to \<open>sort\<close>:
  \<^verbatim>\<open>(a, b) => {
    if (a.type === "dir" && b.type !== "dir") return -1;
    if (a.type !== "dir" && b.type === "dir") return 1;
    return a.name.localeCompare(b.name); }\<close>
\<close>

definition FileTree_compare ::
  "(string \<Rightarrow> 'k::linorder) \<Rightarrow> FileTreeItem \<Rightarrow> FileTreeItem \<Rightarrow> int" where
  "FileTree_compare collate a b =
     (if item_type a = ''dir'' \<and> item_type b \<noteq> ''dir'' then - 1
      else if item_type a \<noteq> ''dir'' \<and> item_type b = ''dir'' then 1
      else localeCompare collate (item_name a) (item_name b))"

text \<open>
  \<open>Array.prototype.sort(compareFn)\<close> is stable, and with a consistent comparator it leaves
  the array sorted by it. Such a result is unique, so any stable sort computes it; here,
  insertion from the right end, an element going in front of the first element it does not
  exceed.
\<close>

fun sort_insert :: "('a \<Rightarrow> 'a \<Rightarrow> int) \<Rightarrow> 'a \<Rightarrow> 'a list \<Rightarrow> 'a list" where
  "sort_insert compareFn x [] = [x]"
| "sort_insert compareFn x (y # ys) =
     (if compareFn x y \<le> 0 then x # y # ys else y # sort_insert compareFn x ys)"

definition Array_sort :: "('a \<Rightarrow> 'a \<Rightarrow> int) \<Rightarrow> 'a list \<Rightarrow> 'a list" where
  "Array_sort compareFn xs = foldr (sort_insert compareFn) xs []"

text \<open>
  \<open>sort\<close> sorts the array it is called on, in place. To say that the component's input is
  left as it was, arrays live in a store: a reference is an index into the list of all
  arrays. The spread \<open>[...items]\<close> allocates a new array with the elements of \<open>items\<close>;
  \<open>sort\<close> overwrites the array behind the reference it is given and returns that reference.
\<close>

type_synonym 'a store = "'a list list"

definition spread :: "nat \<Rightarrow> 'a store \<Rightarrow> nat \<times> 'a store" where
  "spread items st = (length st, st @ [st ! items])"

definition sort_in_place :: "('a \<Rightarrow> 'a \<Rightarrow> int) \<Rightarrow> nat \<Rightarrow> 'a store \<Rightarrow> nat \<times> 'a store" where
  "sort_in_place compareFn arr st = (arr, st[arr := Array_sort compareFn (st ! arr)])"

text \<open>\<^verbatim>\<open>const sortedItems = [...items].sort((a, b) => ...);\<close>\<close>

definition FileTree_sortedItems ::
  "(string \<Rightarrow> 'k::linorder) \<Rightarrow> nat \<Rightarrow> FileTreeItem store \<Rightarrow> nat \<times> FileTreeItem store" where
  "FileTree_sortedItems collate items st =
     (case spread items st of
        (copy, st') \<Rightarrow> sort_in_place (FileTree_compare collate) copy st')"

text \<open>
  One button per element of \<open>sortedItems\<close>, in that order: the folder or file icon, the name,
  the size (for an item of type \<open>file\<close> that has one; the text it is formatted to is left
  out), and whether the row is the selected one. Below the rows, the notice "Empty directory"
  when \<open>items\<close> is empty.
\<close>

record FileTreeRow =
  row_key :: string
  folder_icon :: bool
  row_name :: string
  row_size :: "nat option"
  row_selected :: bool

definition FileTree_row :: "string option \<Rightarrow> FileTreeItem \<Rightarrow> FileTreeRow" where
  "FileTree_row selectedPath item =
     \<lparr>row_key = item_path item,
      folder_icon = (item_type item = ''dir''),
      row_name = item_name item,
      row_size = (if item_type item = ''file'' then item_size item else None),
      row_selected = (selectedPath = Some (item_path item))\<rparr>"

definition FileTree ::
  "(string \<Rightarrow> 'k::linorder) \<Rightarrow> nat \<Rightarrow> string option \<Rightarrow> FileTreeItem store
     \<Rightarrow> (FileTreeRow list \<times> bool) \<times> FileTreeItem store" where
  "FileTree collate items selectedPath st =
     (case FileTree_sortedItems collate items st of
        (sortedItems, st') \<Rightarrow>
          ((map (FileTree_row selectedPath) (st' ! sortedItems), length (st' ! items) = 0), st'))"

text \<open>A directory listing used as a concrete input: two files and two directories.\<close>

definition example_item :: "string \<Rightarrow> string \<Rightarrow> FileTreeItem" where
  "example_item n t =
     \<lparr>item_name = n, item_path = n, item_type = t,
      item_size = (if t = ''file'' then Some 120 else None)\<rparr>"

definition example_listing :: "FileTreeItem list" where
  "example_listing =
     [example_item ''b.ts'' ''file'', example_item ''src'' ''dir'',
      example_item ''a.ts'' ''file'', example_item ''docs'' ''dir'']"

text \<open>The same listing, directories first and each group by name.\<close>

definition sorted_listing :: "FileTreeItem list" where
  "sorted_listing =
     [example_item ''docs'' ''dir'', example_item ''src'' ''dir'',
      example_item ''a.ts'' ''file'', example_item ''b.ts'' ''file'']"

section \<open>The editor's language names (frontend/src/components/CodeEditor.tsx)\<close>

text \<open>
  In this section and the next a \<^typ>\<open>string\<close> is a JavaScript string whose code units are
  all below 256; a \<^typ>\<open>char\<close> is one code unit. On these, \<open>toLowerCase\<close> maps \<open>A\<close> to \<open>Z\<close>
  and the capital letters of Latin-1 (\<open>0xC0\<close> to \<open>0xDE\<close>, the multiplication sign \<open>0xD7\<close>
  excepted) to the code unit 32 above, and leaves every other code unit as it is.
\<close>

definition toLowerCase_unit :: "char \<Rightarrow> char" where
  "toLowerCase_unit c =
     (let n = (of_char c :: nat)
      in if (65 \<le> n \<and> n \<le> 90) \<or> (192 \<le> n \<and> n \<le> 222 \<and> n \<noteq> 215)
         then char_of (n + 32) else c)"

definition toLowerCase :: "string \<Rightarrow> string" where
  "toLowerCase s = map toLowerCase_unit s"

text \<open>The own properties of the object literal \<open>languageMap\<close>, in the order of the source.\<close>

definition languageMap :: "(string \<times> string) list" where
  "languageMap =
     [(''python'', ''python''), (''py'', ''python''),
      (''javascript'', ''javascript''), (''js'', ''javascript''),
      (''typescript'', ''typescript''), (''ts'', ''typescript''), (''tsx'', ''typescript''),
      (''jsx'', ''javascript''),
      (''java'', ''java''),
      (''go'', ''go''), (''golang'', ''go''),
      (''rust'', ''rust''), (''rs'', ''rust''),
      (''c'', ''c''), (''cpp'', ''cpp''), (''c++'', ''cpp''),
      (''csharp'', ''csharp''), (''cs'', ''csharp''),
      (''ruby'', ''ruby''), (''rb'', ''ruby''),
      (''php'', ''php''), (''html'', ''html''), (''css'', ''css''), (''json'', ''json''),
      (''yaml'', ''yaml''), (''yml'', ''yaml''),
      (''markdown'', ''markdown''), (''md'', ''markdown''),
      (''sql'', ''sql''),
      (''shell'', ''shell''), (''bash'', ''shell''), (''sh'', ''shell'')]"

text \<open>
  What reading a property of \<open>languageMap\<close> can give: one of its strings, a function or an
  object inherited from \<open>Object.prototype\<close>, or \<open>undefined\<close>.
\<close>

datatype property_value =
    JSString string
  | JSFunction string
  | JSObjectPrototype
  | JSUndefined

text \<open>
  \<open>languageMap\<close> is an object literal, so its prototype is \<open>Object.prototype\<close>, and
  \<open>languageMap[key]\<close> for a \<open>key\<close> that is not an own property is looked up there:
  \<open>constructor\<close> is the function \<open>Object\<close>, the accessor \<open>__proto__\<close> gives the prototype
  itself, and the other names are the prototype's methods.
\<close>

definition Object_prototype_methods :: "string list" where
  "Object_prototype_methods =
     [''hasOwnProperty'', ''isPrototypeOf'', ''propertyIsEnumerable'', ''toLocaleString'',
      ''toString'', ''valueOf'', ''__defineGetter__'', ''__defineSetter__'',
      ''__lookupGetter__'', ''__lookupSetter__'']"

definition Object_prototype_get :: "string \<Rightarrow> property_value" where
  "Object_prototype_get key =
     (if key = ''constructor'' then JSFunction ''Object''
      else if key = ''__proto__'' then JSObjectPrototype
      else if key \<in> set Object_prototype_methods then JSFunction key
      else JSUndefined)"

definition languageMap_get :: "string \<Rightarrow> property_value" where
  "languageMap_get key =
     (case map_of languageMap key of
        Some v \<Rightarrow> JSString v
      | None \<Rightarrow> Object_prototype_get key)"

text \<open>
  \<^verbatim>\<open>return languageMap[language.toLowerCase()] ?? "plaintext";\<close>
  The operator \<open>??\<close> replaces \<open>undefined\<close> (and \<open>null\<close>) only.
\<close>

definition mapLanguage :: "string \<Rightarrow> property_value" where
  "mapLanguage lang =
     (case languageMap_get (toLowerCase lang) of
        JSUndefined \<Rightarrow> JSString ''plaintext''
      | v \<Rightarrow> v)"

text \<open>
  \<open>mapLanguage\<close> applied to a value it returned: on a value that is not a string,
  \<open>language.toLowerCase\<close> is \<open>undefined\<close> and the call throws a \<open>TypeError\<close>.
\<close>

definition mapLanguage_again :: "property_value \<Rightarrow> js_error + property_value" where
  "mapLanguage_again v =
     (case v of
        JSString s \<Rightarrow> Inr (mapLanguage s)
      | _ \<Rightarrow> Inl (TypeError ''language.toLowerCase is not a function''))"

section \<open>The UI preferences (frontend/src/stores/reviewStore.ts)\<close>

text \<open>
  A JavaScript number is a finite double, \<open>NaN\<close> or an infinity. JSON has no notation for the
  last three. (The two zeros are identified, as \<open>===\<close> does.)
\<close>

datatype js_number = Finite rat | NaN | PlusInfinity | MinusInfinity

text \<open>
  What a preference field of the store can hold at run time: a value that JSON can express
  (a field restored from storage holds whatever the stored text had under that name),
  \<open>undefined\<close>, or a number that JSON cannot express.
\<close>

datatype field_value = Undefined | NotFinite js_number | J json

definition number_value :: "js_number \<Rightarrow> field_value" where
  "number_value n = (case n of Finite x \<Rightarrow> J (JNumber x) | _ \<Rightarrow> NotFinite n)"

record UIState =
  theme :: field_value
  editorFontSize :: field_value
  sidebarOpen :: bool
  selectedIssueId :: "int option"

text \<open>
  The store as \<open>create\<close> builds it, and its setters for the two persisted fields:
  \<^verbatim>\<open>theme: "dark", setTheme: (theme) => set({ theme }),
  editorFontSize: 14, setEditorFontSize: (size) => set({ editorFontSize: size }),
  sidebarOpen: true, selectedIssueId: null\<close>
\<close>

definition initial_UIState :: UIState where
  "initial_UIState =
     \<lparr>theme = J (JString ''dark''), editorFontSize = J (JNumber 14),
      sidebarOpen = True, selectedIssueId = None\<rparr>"

definition setTheme :: "string \<Rightarrow> UIState \<Rightarrow> UIState" where
  "setTheme t s = s\<lparr>theme := J (JString t)\<rparr>"

definition setEditorFontSize :: "js_number \<Rightarrow> UIState \<Rightarrow> UIState" where
  "setEditorFontSize size' s = s\<lparr>editorFontSize := number_value size'\<rparr>"

text \<open>
  \<open>localStorage\<close> maps a key to a text; a text is represented, as above, by what
  \<open>JSON.parse\<close> makes of it.
\<close>

type_synonym Storage = "string \<rightharpoonup> js_text"

text \<open>
  \<open>JSON.stringify\<close> of an object literal leaves out a property whose value is \<open>undefined\<close>
  and writes \<open>null\<close> for \<open>NaN\<close> and the infinities; \<open>JSON.parse\<close> of the text it returns gives
  the object so written.
\<close>

definition stringify_property :: "string \<Rightarrow> field_value \<Rightarrow> (string \<times> json) list" where
  "stringify_property name v =
     (case v of Undefined \<Rightarrow> [] | NotFinite _ \<Rightarrow> [(name, JNull)] | J j \<Rightarrow> [(name, j)])"

definition JSON_stringify :: "(string \<times> field_value) list \<Rightarrow> js_text" where
  "JSON_stringify props = Parses (JObject (concat (map (\<lambda>(n, v). stringify_property n v) props)))"

text \<open>
  The subscriber, called with the new state after every change of the store:
  \<^verbatim>\<open>useUIStore.subscribe((state) => {
    localStorage.setItem("ui-preferences",
      JSON.stringify({ theme: state.theme, editorFontSize: state.editorFontSize })); });\<close>
\<close>

definition persist :: "UIState \<Rightarrow> Storage \<Rightarrow> Storage" where
  "persist state storage =
     storage(''ui-preferences'' \<mapsto>
       JSON_stringify [(''theme'', theme state), (''editorFontSize'', editorFontSize state)])"

text \<open>
  Reading the property \<open>name\<close> of a parsed value, for the two names read here, which no
  prototype defines: on \<open>null\<close> the read throws a \<open>TypeError\<close> (\<open>None\<close>); on an object it
  gives the property's value (the last one written under that name) or \<open>undefined\<close>; on any
  other value it gives \<open>undefined\<close>.
\<close>

definition get_property :: "json \<Rightarrow> string \<Rightarrow> field_value option" where
  "get_property parsed name =
     (case parsed of
        JNull \<Rightarrow> None
      | JObject props \<Rightarrow>
          Some (case map_of (rev props) name of None \<Rightarrow> Undefined | Some j \<Rightarrow> J j)
      | _ \<Rightarrow> Some Undefined)"

text \<open>\<open>v ?? d\<close> is \<open>d\<close> when \<open>v\<close> is \<open>null\<close> or \<open>undefined\<close>, and \<open>v\<close> otherwise.\<close>

definition nullish :: "field_value \<Rightarrow> field_value \<Rightarrow> field_value" where
  "nullish v d = (if v = Undefined \<or> v = J JNull then d else v)"

text \<open>
  The restore step, run once when the module is loaded in a browser:
  \<^verbatim>\<open>const stored = localStorage.getItem("ui-preferences");
  if (stored) {
    try {
      const parsed = JSON.parse(stored);
      useUIStore.setState({
        theme: parsed.theme ?? "dark",
        editorFontSize: parsed.editorFontSize ?? 14 });
    } catch { /* Invalid JSON, ignore */ }
  }\<close>
  A missing key gives \<open>null\<close> and the empty text is falsy: both skip the block. Whatever is
  thrown inside \<open>try\<close> (by the parser, or by reading a property of \<open>null\<close>) is caught before
  \<open>setState\<close> is called, so the state is then as it was.
\<close>

definition restore :: "Storage \<Rightarrow> UIState \<Rightarrow> UIState" where
  "restore storage state =
     (case storage ''ui-preferences'' of
        None \<Rightarrow> state
      | Some stored \<Rightarrow>
          if stored = Empty then state
          else (case JSON_parse stored of
                  None \<Rightarrow> state
                | Some parsed \<Rightarrow>
                    (case get_property parsed ''theme'' of
                       None \<Rightarrow> state
                     | Some t \<Rightarrow>
                         (case get_property parsed ''editorFontSize'' of
                            None \<Rightarrow> state
                          | Some f \<Rightarrow>
                              state\<lparr>theme := nullish t (J (JString ''dark'')),
                                    editorFontSize := nullish f (J (JNumber 14))\<rparr>))))"

text \<open>
  A round trip: the subscriber writes \<open>state\<close> into the storage, the page is loaded again
  (the store starts from its initial state) and the restore step runs.
\<close>

definition reload :: "UIState \<Rightarrow> Storage \<Rightarrow> UIState" where
  "reload state storage = restore (persist state storage) initial_UIState"

section \<open>Theorems\<close>

subsection \<open>Polling\<close>

text \<open>
  C1. The polling callback of the review page returns 2000 ms exactly when the cached
  review has status \<open>analyzing\<close>, and \<open>false\<close> in every other case (another status, or nothing
  cached); the callback of the pull-request page returns 3000 ms exactly when some cached PR
  review has status \<open>analyzing\<close>, and \<open>false\<close> in every other case. So the only intervals are
  the two constants, both between 2 and 3 seconds; and after a fetch has stored new data, the
  callback asks for the next fetch if the new status is \<open>analyzing\<close> and stops the polling
  if it is anything else.
\<close>

theorem refetchInterval_polls_exactly_while_analyzing:
  "(ReviewPage_refetchInterval q = Millis 2000) = (\<exists>d. data q = Some d \<and> status d = ''analyzing'')
   \<and> (ReviewPage_refetchInterval q = Never) = (\<not> (\<exists>d. data q = Some d \<and> status d = ''analyzing''))
   \<and> (PRDetailPage_refetchInterval p = Millis 3000)
       = (\<exists>rs. data p = Some rs \<and> (\<exists>r \<in> set rs. pr_status r = ''analyzing''))
   \<and> (PRDetailPage_refetchInterval p = Never)
       = (\<not> (\<exists>rs. data p = Some rs \<and> (\<exists>r \<in> set rs. pr_status r = ''analyzing'')))
   \<and> ReviewPage_refetchInterval q \<in> {Millis 2000, Never}
   \<and> PRDetailPage_refetchInterval p \<in> {Millis 3000, Never}
   \<and> ReviewPage_refetchInterval (fetch_succeeded d' q)
       = (if status d' = ''analyzing'' then Millis 2000 else Never)
   \<and> PRDetailPage_refetchInterval (fetch_succeeded rs' p)
       = (if \<exists>r \<in> set rs'. pr_status r = ''analyzing'' then Millis 3000 else Never)"
  by (auto simp: ReviewPage_refetchInterval_def PRDetailPage_refetchInterval_def list_ex_iff
                 fetch_succeeded_def
           split: option.splits if_splits)

text \<open>
  C6. No backoff, no jitter: two cache entries whose cached reviews have the same status
  (or which both hold nothing) get the same interval from the review page's callback,
  whatever their error, update counters and failure counters are; the same holds for the
  pull-request page when the cached lists carry the same statuses. In particular the
  interval after any number of failed fetches is the interval before them.
\<close>

theorem refetchInterval_depends_on_cached_status_only:
  "(map_option status (data q1) = map_option status (data q2)
      \<longrightarrow> ReviewPage_refetchInterval q1 = ReviewPage_refetchInterval q2)
   \<and> (map_option (map pr_status) (data p1) = map_option (map pr_status) (data p2)
      \<longrightarrow> PRDetailPage_refetchInterval p1 = PRDetailPage_refetchInterval p2)
   \<and> ReviewPage_refetchInterval ((fetch_failed e ^^ n) q1) = ReviewPage_refetchInterval q1
   \<and> PRDetailPage_refetchInterval ((fetch_failed e ^^ n) p1) = PRDetailPage_refetchInterval p1"
proof -
  have same_data: "data ((fetch_failed e ^^ n) q) = data q" for q :: "'d QueryState"
    by (induction n) (simp_all add: fetch_failed_def)
  have ex_map: "list_ex (\<lambda>r. pr_status r = s) rs = (s \<in> set (map pr_status rs))" for s rs
    by (auto simp: list_ex_iff)
  have review: "ReviewPage_refetchInterval q1 = ReviewPage_refetchInterval q2"
    if "map_option status (data q1) = map_option status (data q2)"
    using that by (cases "data q1"; cases "data q2") (auto simp: ReviewPage_refetchInterval_def)
  have pr: "PRDetailPage_refetchInterval p1 = PRDetailPage_refetchInterval p2"
    if "map_option (map pr_status) (data p1) = map_option (map pr_status) (data p2)"
    using that
    by (cases "data p1"; cases "data p2") (auto simp: PRDetailPage_refetchInterval_def ex_map)
  show ?thesis
    using review pr
    by (simp add: same_data ReviewPage_refetchInterval_def PRDetailPage_refetchInterval_def)
qed

theorem refetchInterval_depends_on_cached_status_only_witness:
  "map_option status (data (example_query ''analyzing''))
     = map_option status (data ((fetch_failed ''Failed to fetch'' ^^ 3) (example_query ''analyzing'')))
   \<and> fetchFailureCount ((fetch_failed ''Failed to fetch'' ^^ 3) (example_query ''analyzing'')) = 3
   \<and> fetchFailureCount (example_query ''analyzing'') = 0
   \<and> ReviewPage_refetchInterval (example_query ''analyzing'') = Millis 2000
   \<and> ReviewPage_refetchInterval
         ((fetch_failed ''Failed to fetch'' ^^ 3) (example_query ''analyzing'')) = Millis 2000"
proof -
  let ?q = "example_query ''analyzing''"
  let ?q' = "(fetch_failed ''Failed to fetch'' ^^ 3) ?q"
  have same: "map_option status (data ?q) = map_option status (data ?q')"
    by (simp add: example_query_def fetch_failed_def numeral_3_eq_3)
  have "ReviewPage_refetchInterval ?q = ReviewPage_refetchInterval ?q'"
    using refetchInterval_depends_on_cached_status_only [of ?q ?q'] same by blast
  moreover have "ReviewPage_refetchInterval ?q = Millis 2000"
    by (simp add: ReviewPage_refetchInterval_def example_query_def example_review_def)
  moreover have "fetchFailureCount ?q' = 3" "fetchFailureCount ?q = 0"
    by (simp_all add: example_query_def fetch_failed_def numeral_3_eq_3)
  ultimately show ?thesis using same by simp
qed

subsection \<open>The review page\<close>

text \<open>
  C7, the claim as stated fails. The cache holds a review in status \<open>pending\<close> and a refetch
  of it fails: the page renders the failure message, so it offers no "Start Analysis" although
  the review's status is \<open>pending\<close>.
\<close>

theorem start_analysis_not_offered_in_failure_view_counterexample:
  "result_data (useQuery (fetch_failed ''Failed to fetch''
                            (fetch_started (example_query ''pending''))))
     = Some (example_review ''pending'')
   \<and> status (example_review ''pending'') = ''pending''
   \<and> \<not> start_offered
         (ReviewPage (useQuery (fetch_failed ''Failed to fetch''
                                  (fetch_started (example_query ''pending'')))) False False)
   \<and> \<not> start_triggerable
         (ReviewPage (useQuery (fetch_failed ''Failed to fetch''
                                  (fetch_started (example_query ''pending'')))) False False)"
  by (simp add: ReviewPage_def useQuery_def fetch_failed_def fetch_started_def
                example_query_def example_review_def start_offered_def start_triggerable_def)

text \<open>
  C7, amended. The review page offers "Start Analysis" exactly when it shows the review (the
  query is not loading and reports no error) and the review's status is \<open>pending\<close> or
  \<open>failed\<close>; the button can be used exactly when, moreover, no analysis request is in flight.
  In the loading view and in the failure view nothing is offered, whatever the cached
  status is. Whatever the page renders, the analysis is never offered and never triggerable
  while the status is \<open>analyzing\<close> or \<open>completed\<close>.
\<close>

theorem start_analysis_offered_iff_shown_and_pending_or_failed:
  "start_offered (ReviewPage r cm mp)
     = (\<not> isLoading r \<and> result_error r = None
        \<and> (\<exists>review. result_data r = Some review
              \<and> (status review = ''pending'' \<or> status review = ''failed'')))
   \<and> start_triggerable (ReviewPage r cm mp) = (start_offered (ReviewPage r cm mp) \<and> \<not> mp)
   \<and> (start_panel (review_view review cm mp) \<noteq> None)
      = (status review = ''pending'' \<or> status review = ''failed'')
   \<and> (\<not> isLoading r \<and> result_error r = None \<and> result_data r = Some review
        \<longrightarrow> start_offered (ReviewPage r cm mp)
              = (status review = ''pending'' \<or> status review = ''failed''))
   \<and> (isLoading r \<or> result_error r \<noteq> None
        \<longrightarrow> \<not> start_offered (ReviewPage r cm mp) \<and> \<not> start_triggerable (ReviewPage r cm mp))
   \<and> (start_offered (ReviewPage r cm mp) \<or> start_triggerable (ReviewPage r cm mp)
        \<longrightarrow> (\<exists>rv. result_data r = Some rv \<and> (status rv = ''pending'' \<or> status rv = ''failed'')))
   \<and> (result_data r = Some review \<and> (status review = ''analyzing'' \<or> status review = ''completed'')
        \<longrightarrow> \<not> start_offered (ReviewPage r cm mp) \<and> \<not> start_triggerable (ReviewPage r cm mp))"
  by (auto simp: ReviewPage_def review_view_def canAnalyze_def start_offered_def
                 start_triggerable_def
           split: option.splits if_splits)

theorem start_analysis_offered_iff_shown_and_pending_or_failed_witness:
  "start_offered (ReviewPage (useQuery (example_query ''pending'')) False False)
   \<and> start_triggerable (ReviewPage (useQuery (example_query ''failed'')) False False)
   \<and> \<not> start_offered (ReviewPage (useQuery (example_query ''analyzing'')) False False)
   \<and> \<not> start_triggerable (ReviewPage (useQuery (example_query ''completed'')) False False)
   \<and> \<not> start_offered
         (ReviewPage (useQuery (fetch_failed ''Failed to fetch''
                                  (fetch_started (example_query ''failed'')))) False False)"
proof -
  have shown: "\<not> isLoading (useQuery (example_query st))"
              "result_error (useQuery (example_query st)) = None"
              "result_data (useQuery (example_query st)) = Some (example_review st)"
              "status (example_review st) = st" for st
    by (simp_all add: useQuery_def example_query_def example_review_def)
  have failed: "result_error (useQuery (fetch_failed ''Failed to fetch''
                                          (fetch_started (example_query ''failed'')))) \<noteq> None"
    by (simp add: useQuery_def fetch_failed_def)
  have a: "start_offered (ReviewPage (useQuery (example_query ''pending'')) False False)"
    using start_analysis_offered_iff_shown_and_pending_or_failed
            [where review = "example_review ''pending''" and cm = False and mp = False
               and r = "useQuery (example_query ''pending'')"]
          shown
    by simp
  have b: "start_triggerable (ReviewPage (useQuery (example_query ''failed'')) False False)"
    using start_analysis_offered_iff_shown_and_pending_or_failed
            [where review = "example_review ''failed''" and cm = False and mp = False
               and r = "useQuery (example_query ''failed'')"]
          shown
    by simp
  have c: "\<not> start_offered (ReviewPage (useQuery (example_query ''analyzing'')) False False)"
    using start_analysis_offered_iff_shown_and_pending_or_failed
            [where review = "example_review ''analyzing''" and cm = False and mp = False
               and r = "useQuery (example_query ''analyzing'')"]
          shown
    by simp
  have d: "\<not> start_triggerable (ReviewPage (useQuery (example_query ''completed'')) False False)"
    using start_analysis_offered_iff_shown_and_pending_or_failed
            [where review = "example_review ''completed''" and cm = False and mp = False
               and r = "useQuery (example_query ''completed'')"]
          shown
    by simp
  have e: "\<not> start_offered
             (ReviewPage (useQuery (fetch_failed ''Failed to fetch''
                                      (fetch_started (example_query ''failed'')))) False False)"
    using start_analysis_offered_iff_shown_and_pending_or_failed
            [where r = "useQuery (fetch_failed ''Failed to fetch''
                                    (fetch_started (example_query ''failed'')))"
               and cm = False and mp = False]
          failed
    by blast
  show ?thesis using a b c d e by simp
qed

text \<open>
  C4, the claim as stated fails. The cache holds a review in status \<open>analyzing\<close> and the next
  poll fails: the page then renders the failure message, not the review it showed before.
\<close>

theorem failed_poll_replaces_review_view_counterexample:
  "ReviewPage (useQuery (example_query ''analyzing'')) False False
     = ReviewShown (review_view (example_review ''analyzing'') False False)
   \<and> ReviewPage (useQuery (fetch_failed ''Failed to fetch''
                              (fetch_started (example_query ''analyzing'')))) False False
     = FailedToLoadView
   \<and> FailedToLoadView \<noteq> ReviewShown (review_view (example_review ''analyzing'') False False)"
  by (simp add: ReviewPage_def useQuery_def fetch_failed_def fetch_started_def
                example_query_def)

text \<open>
  C4, amended. While the cached review is \<open>analyzing\<close>, a failed poll keeps the cached
  review but is not silent: the page replaces the review by the failure message. The
  polling callback, which reads the cached data only, still answers 2000 ms, so the fetch
  is retried at the next interval, and a poll that succeeds brings the review back.
\<close>

theorem failed_poll_shows_failure_and_keeps_polling:
  "data q = Some review \<and> status review = ''analyzing''
   \<longrightarrow> data (fetch_failed e (fetch_started q)) = Some review
     \<and> ReviewPage (useQuery (fetch_failed e (fetch_started q))) cm mp = FailedToLoadView
     \<and> ReviewPage_refetchInterval (fetch_failed e (fetch_started q)) = Millis 2000
     \<and> ReviewPage (useQuery (fetch_succeeded review'
                                (fetch_started (fetch_failed e (fetch_started q))))) cm mp
         = ReviewShown (review_view review' cm mp)"
  by (simp add: ReviewPage_def useQuery_def fetch_failed_def fetch_started_def
                fetch_succeeded_def ReviewPage_refetchInterval_def)

theorem failed_poll_shows_failure_and_keeps_polling_witness:
  "data (example_query ''analyzing'') = Some (example_review ''analyzing'')
   \<and> status (example_review ''analyzing'') = ''analyzing''
   \<and> ReviewPage (useQuery (fetch_failed ''Failed to fetch''
                              (fetch_started (example_query ''analyzing'')))) True False
       = FailedToLoadView
   \<and> ReviewPage_refetchInterval
         (fetch_failed ''Failed to fetch'' (fetch_started (example_query ''analyzing'')))
       = Millis 2000"
proof -
  have h: "data (example_query ''analyzing'') = Some (example_review ''analyzing'')
           \<and> status (example_review ''analyzing'') = ''analyzing''"
    by (simp add: example_query_def example_review_def)
  show ?thesis
    using h failed_poll_shows_failure_and_keeps_polling
              [of "example_query ''analyzing''" "example_review ''analyzing''"
                  "''Failed to fetch''" True False]
    by blast
qed

subsection \<open>The home page\<close>

lemma trim_empty_iff: "(trim s = []) = list_all isWhiteSpace s"
proof -
  have a: "(dropWhile isWhiteSpace (rev (dropWhile isWhiteSpace s)) = [])
          = (dropWhile isWhiteSpace s = [])"
  proof (cases "dropWhile isWhiteSpace s")
    case Nil
    then show ?thesis by (simp only: rev.simps dropWhile.simps)
  next
    case (Cons x xs)
    then have "\<not> isWhiteSpace x"
      using hd_dropWhile [of isWhiteSpace s] by fastforce
    moreover have "x \<in> set (rev (dropWhile isWhiteSpace s))"
      using Cons by simp
    ultimately have "dropWhile isWhiteSpace (rev (dropWhile isWhiteSpace s)) \<noteq> []"
      by (metis dropWhile_eq_Nil_conv)
    then show ?thesis using Cons by simp
  qed
  have b: "(dropWhile isWhiteSpace s = []) = list_all isWhiteSpace s"
    by (simp add: dropWhile_eq_Nil_conv list_all_iff)
  show ?thesis
    by (simp only: trim_def rev_is_Nil_conv a b)
qed

text \<open>
  C2. The submit handler issues no \<open>createReview\<close> request exactly when the code is empty or
  all whitespace, and the button is disabled exactly when the code is empty or all
  whitespace or a creation request is in flight. So empty and whitespace-only code disables
  the button and makes the handler do nothing, and there is code (the single letter \<open>x\<close>)
  for which the button is enabled when no request is in flight.
\<close>

theorem submit_disabled_on_blank_code:
  "(handleSubmit s = None) = list_all isWhiteSpace (code s)
   \<and> submit_disabled s = (list_all isWhiteSpace (code s) \<or> createReview_isPending s)
   \<and> (\<exists>s'. \<not> list_all isWhiteSpace (code s') \<and> \<not> createReview_isPending s'
            \<and> \<not> submit_disabled s' \<and> handleSubmit s' \<noteq> None)"
proof -
  let ?s' = "\<lparr>code = [0x78], home_language = '''', home_filename = '''',
              createReview_isPending = False\<rparr>"
  have "\<not> list_all isWhiteSpace (code ?s')"
    by (simp add: isWhiteSpace_def)
  then have "\<not> list_all isWhiteSpace (code ?s') \<and> \<not> createReview_isPending ?s'
             \<and> \<not> submit_disabled ?s' \<and> handleSubmit ?s' \<noteq> None"
    by (simp add: submit_disabled_def handleSubmit_def trim_empty_iff)
  then show ?thesis
    by (auto simp: submit_disabled_def handleSubmit_def trim_empty_iff intro!: exI [of _ ?s'])
qed

subsection \<open>The typed client\<close>

text \<open>
  C3, the claim as stated fails. A response with status 200 whose body is not JSON (here
  an empty body) has an ok status, yet \<open>fetchApi\<close> does not return a parsed body: it throws,
  and the error thrown carries no status.
\<close>

theorem fetchApi_ok_status_throws_counterexample:
  "ok \<lparr>response_status = 200, response_body = Empty\<rparr>
   \<and> fetchApi (always 200 Empty) ''http://localhost:8000'' ''/api/reviews/7'' None
       = Inl SyntaxError"
  by (simp add: fetchApi_def always_def ok_def JSON_parse_def)

text \<open>
  C3, amended. For every endpoint and every HTTP response \<open>fetchApi\<close> either returns the
  parsed body or throws, and nothing else: it returns the parsed body when the status is ok
  and the body parses; it throws \<open>Error("API error: <status>")\<close>, the status in decimal,
  when the status is not ok; it throws the parser's error, which carries no status, when the
  status is ok and the body is not JSON. A call returns only in the first case. All
  statuses that are not ok give the same kind of error.
\<close>

theorem fetchApi_returns_body_or_throws:
  "fetch (build_request API_URL endpoint options) = Responded r
   \<longrightarrow> (\<not> ok r \<longrightarrow> fetchApi fetch API_URL endpoint options
                      = Inl (Error (''API error: '' @ decimal (response_status r))))
     \<and> (ok r \<and> JSON_parse (response_body r) = Some j
          \<longrightarrow> fetchApi fetch API_URL endpoint options = Inr j)
     \<and> (ok r \<and> JSON_parse (response_body r) = None
          \<longrightarrow> fetchApi fetch API_URL endpoint options = Inl SyntaxError)
     \<and> (fetchApi fetch API_URL endpoint options = Inr j
          \<longrightarrow> ok r \<and> JSON_parse (response_body r) = Some j)
     \<and> ((\<exists>e. fetchApi fetch API_URL endpoint options = Inl e)
          \<noteq> (\<exists>b. fetchApi fetch API_URL endpoint options = Inr b))"
  by (auto simp: fetchApi_def split: option.splits)

theorem fetchApi_returns_body_or_throws_witness:
  "fetchApi (always 404 (Parses (JObject [(''detail'', JString ''Not Found'')])))
            ''http://localhost:8000'' ''/api/reviews/7'' None
     = Inl (Error ''API error: 404'')
   \<and> fetchApi (always 200 (Parses (JObject [(''id'', JNumber 7)])))
            ''http://localhost:8000'' ''/api/reviews/7'' None
     = Inr (JObject [(''id'', JNumber 7)])"
proof -
  let ?r1 = "\<lparr>response_status = 404,
              response_body = Parses (JObject [(''detail'', JString ''Not Found'')])\<rparr>"
  let ?f1 = "always 404 (Parses (JObject [(''detail'', JString ''Not Found'')]))"
  let ?r2 = "\<lparr>response_status = 200, response_body = Parses (JObject [(''id'', JNumber 7)])\<rparr>"
  let ?f2 = "always 200 (Parses (JObject [(''id'', JNumber 7)]))"
  have d: "decimal 404 = ''404''"
    by simp
  have "fetchApi ?f1 ''http://localhost:8000'' ''/api/reviews/7'' None
          = Inl (Error (''API error: '' @ decimal (response_status ?r1)))"
    using fetchApi_returns_body_or_throws
            [of ?f1 "''http://localhost:8000''" "''/api/reviews/7''" None ?r1]
    by (simp add: always_def ok_def)
  moreover have "fetchApi ?f2 ''http://localhost:8000'' ''/api/reviews/7'' None
          = Inr (JObject [(''id'', JNumber 7)])"
    using fetchApi_returns_body_or_throws
            [of ?f2 "''http://localhost:8000''" "''/api/reviews/7''" None ?r2
                "JObject [(''id'', JNumber 7)]"]
    by (simp add: always_def ok_def JSON_parse_def)
  ultimately show ?thesis using d by simp
qed

subsection \<open>Cache invalidation\<close>

lemma partialMatchKey_refl:
  "KNum NotANumber \<notin> set key \<Longrightarrow> partialMatchKey key key"
  by (induction key) (auto simp: strict_equal_def)

lemma partialMatchKey_NaN:
  "KNum NotANumber \<in> set queryKey \<Longrightarrow> \<not> partialMatchKey queryKey key"
  by (induction queryKey key rule: partialMatchKey.induct) (auto simp: strict_equal_def)

lemma invalidateQueries_own_key:
  "KNum NotANumber \<notin> set key \<Longrightarrow> cache key = Some b
     \<Longrightarrow> invalidateQueries key cache key = Some True"
  by (simp add: invalidateQueries_def partialMatchKey_refl)

lemma invalidateQueries_other_key:
  "\<not> partialMatchKey queryKey key \<Longrightarrow> invalidateQueries queryKey cache key = cache key"
  by (simp add: invalidateQueries_def split: option.splits)

text \<open>
  C5, the claim as stated fails. After a file review has been triggered from the
  repository page and has succeeded, no entry of the cache is invalidated: not the list of
  reviews, to which the new review belongs, and not any other. And a pull-request review
  triggered from the list of pull requests invalidates the list, not the reviews of that
  pull request.
\<close>

theorem reviewFile_success_invalidates_nothing_counterexample:
  "map example_cache example_keys
     = [Some False, Some False, Some False, Some False, Some False, Some False, Some False]
   \<and> map (RepoPage_reviewMutation_onSuccess example_cache) example_keys
     = [Some False, Some False, Some False, Some False, Some False, Some False, Some False]
   \<and> PullsPage_reviewMutation_onSuccess ''octo'' ''demo'' example_cache
        (PRDetailPage_queryKey ''octo'' ''demo'' (IntegerValue 3)) = Some False"
  by (simp add: example_cache_def example_keys_def RepoPage_reviewMutation_onSuccess_def
                PullsPage_reviewMutation_onSuccess_def invalidateQueries_def
                ReviewsPage_queryKey_def ReviewPage_queryKey_def GitHubPage_queryKey_def
                PullsPage_queryKey_def PRDetailPage_queryKey_def
                RepoPage_contents_queryKey_def RepoPage_file_queryKey_def strict_equal_def)

text \<open>
  C5, amended. Three mutations invalidate, on success, the entry of the query their own page
  shows: triggering the analysis on the review page (key \<open>review, id\<close>), triggering a PR
  review on the pull-request page (key \<open>pr-reviews, owner, repo, number\<close>) and syncing the
  installations (key \<open>github-installations\<close>); a cached entry under that key is then marked
  invalidated, so the next read of it refetches. For the first two this holds when the
  number the page parsed from its route is a number; when it is \<open>NaN\<close>, the invalidation
  matches no entry and the page's entry stays as it was. A PR review triggered from the list
  of pull requests invalidates the list (key \<open>pulls, owner, repo\<close>). An invalidation touches
  no entry whose key does not start with the given key. Triggering a file review and
  creating a review invalidate nothing.
\<close>

theorem mutations_invalidate_their_page_query:
  "(reviewId \<noteq> NotANumber \<and> cache (ReviewPage_queryKey reviewId) \<noteq> None
      \<longrightarrow> ReviewPage_analyzeMutation_onSuccess reviewId cache (ReviewPage_queryKey reviewId)
            = Some True)
   \<and> ReviewPage_analyzeMutation_onSuccess NotANumber cache = cache
   \<and> (prNumber \<noteq> NotANumber \<and> cache (PRDetailPage_queryKey owner repo prNumber) \<noteq> None
      \<longrightarrow> PRDetailPage_reviewMutation_onSuccess owner repo prNumber cache
              (PRDetailPage_queryKey owner repo prNumber) = Some True)
   \<and> PRDetailPage_reviewMutation_onSuccess owner repo NotANumber cache = cache
   \<and> (cache GitHubPage_queryKey \<noteq> None
      \<longrightarrow> fst (GitHubPage_syncMutation_onSuccess installations cache) GitHubPage_queryKey
            = Some True)
   \<and> (cache (PullsPage_queryKey owner repo) \<noteq> None
      \<longrightarrow> PullsPage_reviewMutation_onSuccess owner repo cache (PullsPage_queryKey owner repo)
            = Some True)
   \<and> (\<not> partialMatchKey queryKey key \<longrightarrow> invalidateQueries queryKey cache key = cache key)
   \<and> RepoPage_reviewMutation_onSuccess cache = cache
   \<and> fst (HomePage_createReview_onSuccess id_text cache) = cache"
proof -
  have review: "ReviewPage_analyzeMutation_onSuccess reviewId cache (ReviewPage_queryKey reviewId)
                  = Some True"
    if "reviewId \<noteq> NotANumber" "cache (ReviewPage_queryKey reviewId) \<noteq> None"
  proof -
    have "KNum NotANumber \<notin> set (ReviewPage_queryKey reviewId)"
      using that(1) by (auto simp: ReviewPage_queryKey_def)
    then show ?thesis
      using that(2) invalidateQueries_own_key [of "ReviewPage_queryKey reviewId" cache]
      by (auto simp: ReviewPage_analyzeMutation_onSuccess_def ReviewPage_queryKey_def)
  qed
  have review_NaN: "ReviewPage_analyzeMutation_onSuccess NotANumber cache = cache"
  proof
    fix key
    have "\<not> partialMatchKey [KStr ''review'', KNum NotANumber] key"
      by (rule partialMatchKey_NaN) simp
    then show "ReviewPage_analyzeMutation_onSuccess NotANumber cache key = cache key"
      by (simp add: ReviewPage_analyzeMutation_onSuccess_def invalidateQueries_other_key)
  qed
  have pr: "PRDetailPage_reviewMutation_onSuccess owner repo prNumber cache
              (PRDetailPage_queryKey owner repo prNumber) = Some True"
    if "prNumber \<noteq> NotANumber" "cache (PRDetailPage_queryKey owner repo prNumber) \<noteq> None"
  proof -
    have "KNum NotANumber \<notin> set (PRDetailPage_queryKey owner repo prNumber)"
      using that(1) by (auto simp: PRDetailPage_queryKey_def)
    then show ?thesis
      using that(2)
            invalidateQueries_own_key [of "PRDetailPage_queryKey owner repo prNumber" cache]
      by (auto simp: PRDetailPage_reviewMutation_onSuccess_def PRDetailPage_queryKey_def)
  qed
  have pr_NaN: "PRDetailPage_reviewMutation_onSuccess owner repo NotANumber cache = cache"
  proof
    fix key
    have "\<not> partialMatchKey [KStr ''pr-reviews'', KStr owner, KStr repo, KNum NotANumber] key"
      by (rule partialMatchKey_NaN) simp
    then show "PRDetailPage_reviewMutation_onSuccess owner repo NotANumber cache key = cache key"
      by (simp add: PRDetailPage_reviewMutation_onSuccess_def invalidateQueries_other_key)
  qed
  have sync: "fst (GitHubPage_syncMutation_onSuccess installations cache) GitHubPage_queryKey
                = Some True"
    if "cache GitHubPage_queryKey \<noteq> None"
    using that invalidateQueries_own_key [of GitHubPage_queryKey cache]
    by (auto simp: GitHubPage_syncMutation_onSuccess_def GitHubPage_queryKey_def)
  have pulls: "PullsPage_reviewMutation_onSuccess owner repo cache (PullsPage_queryKey owner repo)
                 = Some True"
    if "cache (PullsPage_queryKey owner repo) \<noteq> None"
    using that invalidateQueries_own_key [of "PullsPage_queryKey owner repo" cache]
    by (auto simp: PullsPage_reviewMutation_onSuccess_def PullsPage_queryKey_def)
  show ?thesis
    using review review_NaN pr pr_NaN sync pulls invalidateQueries_other_key
    by (simp add: RepoPage_reviewMutation_onSuccess_def HomePage_createReview_onSuccess_def)
qed

theorem mutations_invalidate_their_page_query_witness:
  "example_cache (ReviewPage_queryKey (IntegerValue 7)) = Some False
   \<and> ReviewPage_analyzeMutation_onSuccess (IntegerValue 7) example_cache
        (ReviewPage_queryKey (IntegerValue 7)) = Some True
   \<and> ReviewPage_analyzeMutation_onSuccess (IntegerValue 7) example_cache ReviewsPage_queryKey
        = Some False
   \<and> example_cache_NaN (ReviewPage_queryKey NotANumber) = Some False
   \<and> ReviewPage_analyzeMutation_onSuccess NotANumber example_cache_NaN
        (ReviewPage_queryKey NotANumber) = Some False"
proof -
  have present: "IntegerValue 7 \<noteq> NotANumber
                 \<and> example_cache (ReviewPage_queryKey (IntegerValue 7)) \<noteq> None"
    by (simp add: example_cache_def example_keys_def ReviewPage_queryKey_def)
  have fresh: "example_cache (ReviewPage_queryKey (IntegerValue 7)) = Some False"
              "example_cache ReviewsPage_queryKey = Some False"
              "example_cache_NaN (ReviewPage_queryKey NotANumber) = Some False"
    by (simp_all add: example_cache_def example_cache_NaN_def example_keys_def
                      ReviewPage_queryKey_def ReviewsPage_queryKey_def)
  have other: "\<not> partialMatchKey [KStr ''review'', KNum (IntegerValue 7)] ReviewsPage_queryKey"
    by (simp add: ReviewsPage_queryKey_def strict_equal_def)
  have a: "ReviewPage_analyzeMutation_onSuccess (IntegerValue 7) example_cache
             (ReviewPage_queryKey (IntegerValue 7)) = Some True"
    using mutations_invalidate_their_page_query [where reviewId = "IntegerValue 7"
                                                   and cache = example_cache] present
    by blast
  have b: "invalidateQueries [KStr ''review'', KNum (IntegerValue 7)] example_cache
             ReviewsPage_queryKey = example_cache ReviewsPage_queryKey"
    using mutations_invalidate_their_page_query
            [where queryKey = "[KStr ''review'', KNum (IntegerValue 7)]"
               and key = ReviewsPage_queryKey and cache = example_cache] other
    by blast
  have c: "ReviewPage_analyzeMutation_onSuccess NotANumber example_cache_NaN = example_cache_NaN"
    using mutations_invalidate_their_page_query [where cache = example_cache_NaN] by blast
  show ?thesis
    using a b c fresh by (simp add: ReviewPage_analyzeMutation_onSuccess_def)
qed

subsection \<open>The file tree\<close>

lemma mset_sort_insert: "mset (sort_insert c x xs) = add_mset x (mset xs)"
  by (induction xs) simp_all

lemma mset_Array_sort: "mset (Array_sort c xs) = mset xs"
  by (induction xs) (simp_all add: Array_sort_def mset_sort_insert)

lemma set_sort_insert: "set (sort_insert c x xs) = insert x (set xs)"
  by (induction xs) auto

lemma sorted_wrt_sort_insert:
  assumes tr: "\<And>x y z. c x y \<le> 0 \<Longrightarrow> c y z \<le> 0 \<Longrightarrow> c x z \<le> 0"
    and tot: "\<And>x y. \<not> c x y \<le> 0 \<Longrightarrow> c y x \<le> 0"
    and srt: "sorted_wrt (\<lambda>a b. c a b \<le> 0) xs"
  shows "sorted_wrt (\<lambda>a b. c a b \<le> 0) (sort_insert c x xs)"
  using srt
proof (induction xs)
  case Nil
  then show ?case by simp
next
  case (Cons y ys)
  show ?case
  proof (cases "c x y \<le> 0")
    case True
    then show ?thesis using Cons.prems tr by auto
  next
    case False
    then have "c y x \<le> 0" by (rule tot)
    then show ?thesis using False Cons by (auto simp: set_sort_insert)
  qed
qed

lemma sorted_wrt_Array_sort:
  assumes tr: "\<And>x y z. c x y \<le> 0 \<Longrightarrow> c y z \<le> 0 \<Longrightarrow> c x z \<le> 0"
    and tot: "\<And>x y. \<not> c x y \<le> 0 \<Longrightarrow> c y x \<le> 0"
  shows "sorted_wrt (\<lambda>a b. c a b \<le> 0) (Array_sort c xs)"
proof (induction xs)
  case Nil
  then show ?case by (simp add: Array_sort_def)
next
  case (Cons x xs)
  have "Array_sort c (x # xs) = sort_insert c x (Array_sort c xs)"
    by (simp add: Array_sort_def)
  then show ?case using sorted_wrt_sort_insert [OF tr tot Cons] by simp
qed

lemma FileTree_compare_le_iff:
  "(FileTree_compare collate a b \<le> 0) =
     ((item_type a = ''dir'' \<and> item_type b \<noteq> ''dir'')
      \<or> ((item_type a = ''dir'') = (item_type b = ''dir'')
          \<and> collate (item_name a) \<le> collate (item_name b)))"
  by (auto simp: FileTree_compare_def localeCompare_def)

lemma FileTree_compare_trans:
  "FileTree_compare collate x y \<le> 0 \<Longrightarrow> FileTree_compare collate y z \<le> 0
     \<Longrightarrow> FileTree_compare collate x z \<le> 0"
  unfolding FileTree_compare_le_iff by auto

lemma FileTree_compare_total:
  "\<not> FileTree_compare collate x y \<le> 0 \<Longrightarrow> FileTree_compare collate y x \<le> 0"
  unfolding FileTree_compare_le_iff by auto

lemma sorted_FileTree:
  "sorted_wrt (\<lambda>a b. FileTree_compare collate a b \<le> 0) (Array_sort (FileTree_compare collate) xs)"
  by (rule sorted_wrt_Array_sort) (erule (1) FileTree_compare_trans, erule FileTree_compare_total)


text \<open>
  C8. \<open>FileTree\<close> shows one row per element of a sorted copy of \<open>items\<close>: the copy is a new
  array with the same elements as \<open>items\<close>; in it no item of another type stands before an
  item of type \<open>dir\<close>, and two items of the same group (both \<open>dir\<close>, or both not) stand in
  ascending \<open>localeCompare\<close> order of their names, whatever the locale's collation is. The
  array \<open>items\<close>, and every other array that existed, is as it was.
\<close>

theorem FileTree_displays_sorted_copy:
  "items < length st \<and> FileTree_sortedItems collate items st = (copy, st')
   \<longrightarrow> st' ! items = st ! items \<and> take (length st) st' = st \<and> copy \<noteq> items
     \<and> mset (st' ! copy) = mset (st ! items)
     \<and> (\<forall>i j. i < j \<and> j < length (st' ! copy) \<and> item_type (st' ! copy ! j) = ''dir''
            \<longrightarrow> item_type (st' ! copy ! i) = ''dir'')
     \<and> (\<forall>i j. i < j \<and> j < length (st' ! copy)
              \<and> (item_type (st' ! copy ! i) = ''dir'') = (item_type (st' ! copy ! j) = ''dir'')
            \<longrightarrow> collate (item_name (st' ! copy ! i)) \<le> collate (item_name (st' ! copy ! j)))
     \<and> FileTree collate items selectedPath st
         = ((map (FileTree_row selectedPath) (st' ! copy), length (st ! items) = 0), st')"
proof (intro impI, elim conjE)
  assume r: "items < length st"
    and e: "FileTree_sortedItems collate items st = (copy, st')"
  let ?s = "Array_sort (FileTree_compare collate) (st ! items)"
  have copy: "copy = length st" and st': "st' = st @ [?s]"
    using e by (simp_all add: FileTree_sortedItems_def spread_def sort_in_place_def)
  have s: "st' ! copy = ?s" by (simp add: copy st')
  have keep: "st' ! items = st ! items" using r by (simp add: st' nth_append)
  have srt: "sorted_wrt (\<lambda>a b. FileTree_compare collate a b \<le> 0) ?s"
    by (rule sorted_FileTree)
  have le: "FileTree_compare collate (?s ! i) (?s ! j) \<le> 0" if "i < j" "j < length ?s" for i j
    using srt that by (simp add: sorted_wrt_iff_nth_less)
  have dirs: "item_type (?s ! i) = ''dir''"
    if "i < j" "j < length ?s" "item_type (?s ! j) = ''dir''" for i j
    using le [OF that(1,2)] that(3) by (auto simp: FileTree_compare_le_iff)
  have names: "collate (item_name (?s ! i)) \<le> collate (item_name (?s ! j))"
    if "i < j" "j < length ?s" "(item_type (?s ! i) = ''dir'') = (item_type (?s ! j) = ''dir'')" for i j
    using le [OF that(1,2)] that(3) by (auto simp: FileTree_compare_le_iff)
  have page: "FileTree collate items selectedPath st
         = ((map (FileTree_row selectedPath) (st' ! copy), length (st ! items) = 0), st')"
    using e keep by (simp add: FileTree_def)
  show "st' ! items = st ! items \<and> take (length st) st' = st \<and> copy \<noteq> items
     \<and> mset (st' ! copy) = mset (st ! items)
     \<and> (\<forall>i j. i < j \<and> j < length (st' ! copy) \<and> item_type (st' ! copy ! j) = ''dir''
            \<longrightarrow> item_type (st' ! copy ! i) = ''dir'')
     \<and> (\<forall>i j. i < j \<and> j < length (st' ! copy)
              \<and> (item_type (st' ! copy ! i) = ''dir'') = (item_type (st' ! copy ! j) = ''dir'')
            \<longrightarrow> collate (item_name (st' ! copy ! i)) \<le> collate (item_name (st' ! copy ! j)))
     \<and> FileTree collate items selectedPath st
         = ((map (FileTree_row selectedPath) (st' ! copy), length (st ! items) = 0), st')"
    unfolding s
    using keep r dirs names page [unfolded s]
    by (auto simp: mset_Array_sort st' copy)
qed

theorem FileTree_displays_sorted_copy_witness:
  "(0::nat) < length [example_listing]
   \<and> FileTree_sortedItems (\<lambda>s. s) 0 [example_listing] = (1, [example_listing, sorted_listing])
   \<and> [example_listing, sorted_listing] ! 0 = example_listing
   \<and> mset sorted_listing = mset example_listing
   \<and> map row_name (fst (fst (FileTree (\<lambda>s. s) 0 None [example_listing])))
       = [''docs'', ''src'', ''a.ts'', ''b.ts'']"
proof -
  have h: "(0::nat) < length [example_listing]
           \<and> FileTree_sortedItems (\<lambda>s. s) 0 [example_listing] = (1, [example_listing, sorted_listing])"
    by (simp add: FileTree_sortedItems_def spread_def sort_in_place_def Array_sort_def
        example_listing_def sorted_listing_def example_item_def FileTree_compare_def localeCompare_def
        less_char_def)
  have names: "map (row_name \<circ> FileTree_row None) sorted_listing = [''docs'', ''src'', ''a.ts'', ''b.ts'']"
    by (simp add: sorted_listing_def example_item_def FileTree_row_def)
  from FileTree_displays_sorted_copy
         [of 0 "[example_listing]" "\<lambda>s. s" 1 "[example_listing, sorted_listing]" None] h
  have "mset ([example_listing, sorted_listing] ! 1) = mset ([example_listing] ! 0)"
    and "FileTree (\<lambda>s. s) 0 None [example_listing]
         = ((map (FileTree_row None) ([example_listing, sorted_listing] ! 1),
             length ([example_listing] ! 0) = 0), [example_listing, sorted_listing])"
    by blast+
  then show ?thesis using h names by simp
qed

subsection \<open>The editor's language names\<close>

text \<open>
  C9. The claim is that \<open>mapLanguage\<close> returns a language identifier for every string and
  that applying it twice is applying it once. The code misses that at two names: the
  lower-cased input \<open>constructor\<close> reads the function \<open>Object\<close> off the prototype of the
  table, and \<open>__proto__\<close> reads the prototype itself; neither is \<open>undefined\<close>, so neither
  is replaced by \<open>plaintext\<close>, and a second application throws.
\<close>

theorem mapLanguage_constructor_is_not_a_language:
  "mapLanguage ''constructor'' = JSFunction ''Object''
   \<and> mapLanguage ''Constructor'' = JSFunction ''Object''
   \<and> mapLanguage ''__proto__'' = JSObjectPrototype
   \<and> mapLanguage_again (mapLanguage ''constructor'')
       = Inl (TypeError ''language.toLowerCase is not a function'')"
  by code_simp


text \<open>
  For every other input (one that is not \<open>constructor\<close> or \<open>__proto__\<close> in some
  capitalisation) the result is a string, the table's entry for the lower-cased input or
  \<open>plaintext\<close>, and \<open>mapLanguage\<close> maps that string to itself.
\<close>

lemma toLowerCase_unit_not_capital:
  "\<not> (65 \<le> (of_char (toLowerCase_unit c) :: nat) \<and> (of_char (toLowerCase_unit c) :: nat) \<le> 90)"
proof -
  have "(of_char (char_of (n + 32) :: char) :: nat) = n + 32" if "n \<le> 222" for n :: nat
    using that by (simp add: of_char_of)
  then show ?thesis
    by (auto simp: toLowerCase_unit_def Let_def)
qed

lemma methods_have_capital:
  "key \<in> set Object_prototype_methods
     \<Longrightarrow> \<exists>c \<in> set key. 65 \<le> (of_char c :: nat) \<and> (of_char c :: nat) \<le> 90"
  by (auto simp: Object_prototype_methods_def)

lemma toLowerCase_not_method: "toLowerCase lang \<notin> set Object_prototype_methods"
proof
  assume "toLowerCase lang \<in> set Object_prototype_methods"
  then obtain c where "c \<in> set (toLowerCase lang)"
      and "65 \<le> (of_char c :: nat) \<and> (of_char c :: nat) \<le> 90"
    using methods_have_capital by blast
  then show False
    using toLowerCase_unit_not_capital by (auto simp: toLowerCase_def)
qed

lemma languageMap_values:
  "map_of languageMap key = Some v \<Longrightarrow> mapLanguage v = JSString v"
proof -
  assume "map_of languageMap key = Some v"
  then have "v \<in> snd ` set languageMap"
    by (force dest: map_of_SomeD)
  then have "v \<in> {''python'', ''javascript'', ''typescript'', ''java'', ''go'', ''rust'', ''c'',
                  ''cpp'', ''csharp'', ''ruby'', ''php'', ''html'', ''css'', ''json'', ''yaml'',
                  ''markdown'', ''sql'', ''shell''}"
    unfolding languageMap_def by auto
  moreover have "mapLanguage ''python'' = JSString ''python''" by code_simp
  moreover have "mapLanguage ''javascript'' = JSString ''javascript''" by code_simp
  moreover have "mapLanguage ''typescript'' = JSString ''typescript''" by code_simp
  moreover have "mapLanguage ''java'' = JSString ''java''" by code_simp
  moreover have "mapLanguage ''go'' = JSString ''go''" by code_simp
  moreover have "mapLanguage ''rust'' = JSString ''rust''" by code_simp
  moreover have "mapLanguage ''c'' = JSString ''c''" by code_simp
  moreover have "mapLanguage ''cpp'' = JSString ''cpp''" by code_simp
  moreover have "mapLanguage ''csharp'' = JSString ''csharp''" by code_simp
  moreover have "mapLanguage ''ruby'' = JSString ''ruby''" by code_simp
  moreover have "mapLanguage ''php'' = JSString ''php''" by code_simp
  moreover have "mapLanguage ''html'' = JSString ''html''" by code_simp
  moreover have "mapLanguage ''css'' = JSString ''css''" by code_simp
  moreover have "mapLanguage ''json'' = JSString ''json''" by code_simp
  moreover have "mapLanguage ''yaml'' = JSString ''yaml''" by code_simp
  moreover have "mapLanguage ''markdown'' = JSString ''markdown''" by code_simp
  moreover have "mapLanguage ''sql'' = JSString ''sql''" by code_simp
  moreover have "mapLanguage ''shell'' = JSString ''shell''" by code_simp
  ultimately show ?thesis by blast
qed

lemma mapLanguage_plaintext: "mapLanguage ''plaintext'' = JSString ''plaintext''"
  by code_simp

lemma mapLanguage_elsewhere:
  "toLowerCase lang \<noteq> ''constructor'' \<Longrightarrow> toLowerCase lang \<noteq> ''__proto__''
     \<Longrightarrow> \<exists>s. mapLanguage lang = JSString s \<and> mapLanguage_again (mapLanguage lang) = Inr (JSString s)"
proof (cases "map_of languageMap (toLowerCase lang)")
  case None
  assume "toLowerCase lang \<noteq> ''constructor''" "toLowerCase lang \<noteq> ''__proto__''"
  then have "mapLanguage lang = JSString ''plaintext''"
    using None toLowerCase_not_method [of lang]
    by (simp add: mapLanguage_def languageMap_get_def Object_prototype_get_def)
  then show ?thesis
    by (simp add: mapLanguage_again_def mapLanguage_plaintext)
next
  case (Some v)
  then have "mapLanguage lang = JSString v"
    by (simp add: mapLanguage_def languageMap_get_def)
  then show ?thesis
    using languageMap_values [OF Some] by (simp add: mapLanguage_again_def)
qed

subsection \<open>The UI preferences\<close>

text \<open>
  C10, the claim as stated fails. After \<open>setEditorFontSize(NaN)\<close>, or with an infinite
  size, the subscriber writes \<open>null\<close> for the size, and the restore step of the next load
  puts the default 14 in its place: the size restored is not the size that was stored.
\<close>

theorem nonfinite_font_size_not_restored_counterexample:
  "editorFontSize (setEditorFontSize NaN initial_UIState) = NotFinite NaN
   \<and> editorFontSize (reload (setEditorFontSize NaN initial_UIState) Map.empty) = J (JNumber 14)
   \<and> editorFontSize (setEditorFontSize PlusInfinity initial_UIState) = NotFinite PlusInfinity
   \<and> editorFontSize (reload (setEditorFontSize PlusInfinity initial_UIState) Map.empty)
       = J (JNumber 14)"
  by (simp add: reload_def restore_def persist_def JSON_stringify_def stringify_property_def
                JSON_parse_def get_property_def nullish_def setEditorFontSize_def
                number_value_def initial_UIState_def)

text \<open>
  C10, amended. For every store state whose theme is a string and whose \<open>editorFontSize\<close>
  is a finite number, restoring what the subscriber wrote gives the same theme and the
  same \<open>editorFontSize\<close>. A size that is \<open>NaN\<close> or infinite is written as \<open>null\<close> and
  restored as the default 14. When the stored text is not valid JSON, the restore step
  leaves the initial state (theme \<open>dark\<close>, size 14) as it is.
\<close>

theorem preferences_round_trip:
  "(theme state = J (JString t) \<and> editorFontSize state = J (JNumber x)
      \<longrightarrow> theme (reload state storage) = theme state
        \<and> editorFontSize (reload state storage) = editorFontSize state)
   \<and> (editorFontSize state = NotFinite n
      \<longrightarrow> editorFontSize (reload state storage) = J (JNumber 14))
   \<and> (storage ''ui-preferences'' = Some stored \<and> JSON_parse stored = None
      \<longrightarrow> restore storage initial_UIState = initial_UIState
        \<and> theme (restore storage initial_UIState) = J (JString ''dark'')
        \<and> editorFontSize (restore storage initial_UIState) = J (JNumber 14))"
  by (auto simp: reload_def restore_def persist_def JSON_stringify_def stringify_property_def
                 JSON_parse_def get_property_def nullish_def initial_UIState_def
           split: field_value.splits)

theorem preferences_round_trip_witness:
  "theme (reload (setTheme ''light'' (setEditorFontSize (Finite 18) initial_UIState)) Map.empty)
     = J (JString ''light'')
   \<and> editorFontSize
       (reload (setTheme ''light'' (setEditorFontSize (Finite 18) initial_UIState)) Map.empty)
     = J (JNumber 18)
   \<and> restore [''ui-preferences'' \<mapsto> Malformed] initial_UIState = initial_UIState"
proof -
  let ?s = "setTheme ''light'' (setEditorFontSize (Finite 18) initial_UIState)"
  have h: "theme ?s = J (JString ''light'') \<and> editorFontSize ?s = J (JNumber 18)"
    by (simp add: setTheme_def setEditorFontSize_def number_value_def)
  have g: "[''ui-preferences'' \<mapsto> Malformed] ''ui-preferences'' = Some Malformed
           \<and> JSON_parse Malformed = None"
    by (simp add: JSON_parse_def)
  have "theme (reload ?s Map.empty) = theme ?s
        \<and> editorFontSize (reload ?s Map.empty) = editorFontSize ?s"
    using preferences_round_trip [of ?s "''light''" 18 Map.empty] h by blast
  moreover have "restore [''ui-preferences'' \<mapsto> Malformed] initial_UIState = initial_UIState"
    using preferences_round_trip
            [where storage = "[''ui-preferences'' \<mapsto> Malformed]" and stored = Malformed] g
    by blast
  ultimately show ?thesis using h by simp
qed

end
